theory Spec2Isabelle
  imports Main "HOL-Library.AList"
begin

section \<open>JavaScript values of the store and the object heap\<close>

text \<open>
  The selectors of the filter pipeline build new objects with \<^verbatim>\<open>Object.assign({}, x)\<close>
  and \<^verbatim>\<open>{...x}\<close> and then assign to and delete from the copy. To tell a copy from a
  mutation in place, objects live in a heap and a value refers to an object by its
  address. An object is the list of its own enumerable string-keyed properties in
  insertion order, together with its prototype. Arrays are kept as values: the code
  modelled here builds arrays but never assigns into one. Numbers are integers: no code
  path below computes with a number, only its truthiness is read. The values of the store
  are data: built-in functions and prototype objects are met when a property is read,
  and are not stored.

  An object lists its keys in insertion order also where JavaScript would put a key that
  is the numeral of an index first; the code reads the order of keys nowhere, only
  whether there is a key at all.
\<close>

type_synonym addr = nat

datatype jsval =
    Undef
  | Null
  | Bool bool
  | Num int
  | Str string
  | Arr "jsval list"
  | Ref addr

type_synonym obj = "(string \<times> jsval) list"

text \<open>
  The prototype of an object: \<^verbatim>\<open>Object.prototype\<close>, which an object literal gets, or
  the object, array or \<^verbatim>\<open>null\<close> that an assignment to \<^verbatim>\<open>__proto__\<close> put in its
  place.
\<close>

datatype proto = Default | Proto jsval

type_synonym heap = "(obj \<times> proto) list"

datatype error = TypeError | SyntaxError

definition deref :: "heap \<Rightarrow> addr \<Rightarrow> obj" where
  "deref h a = (if a < length h then fst (h ! a) else [])"

definition proto_of :: "heap \<Rightarrow> addr \<Rightarrow> proto" where
  "proto_of h a = (if a < length h then snd (h ! a) else Default)"

text \<open>A new object gets the next free address; the objects already there stay.\<close>

definition alloc :: "heap \<Rightarrow> obj \<times> proto \<Rightarrow> heap \<times> addr" where
  "alloc h ob = (h @ [ob], length h)"

definition nullish :: "jsval \<Rightarrow> bool" where
  "nullish v = (v = Undef \<or> v = Null)"

fun truthy :: "jsval \<Rightarrow> bool" where
  "truthy Undef = False"
| "truthy Null = False"
| "truthy (Bool b) = b"
| "truthy (Num n) = (n \<noteq> 0)"
| "truthy (Str s) = (s \<noteq> [])"
| "truthy (Arr xs) = True"
| "truthy (Ref a) = True"

fun is_object :: "jsval \<Rightarrow> bool" where
  "is_object (Ref a) = True"
| "is_object (Arr xs) = True"
| "is_object v = False"

text \<open>The decimal numeral of an index, the property key of an array element.\<close>

fun string_of_nat :: "nat \<Rightarrow> string" where
  "string_of_nat n =
     (if n < 10 then [char_of (48 + n)]
      else string_of_nat (n div 10) @ [char_of (48 + n mod 10)])"

declare string_of_nat.simps [simp del]

definition index_props :: "jsval list \<Rightarrow> obj" where
  "index_props xs = zip (map string_of_nat [0..<length xs]) xs"

definition chars_of :: "string \<Rightarrow> jsval list" where
  "chars_of s = map (\<lambda>c. Str [c]) s"

text \<open>
  The own enumerable properties of a value: what \<^verbatim>\<open>{...v}\<close> and
  \<^verbatim>\<open>Object.assign({}, v)\<close> read. \<^verbatim>\<open>null\<close>, \<^verbatim>\<open>undefined\<close>, numbers and booleans
  contribute nothing; a string and an array contribute their indexed elements.
\<close>

fun own_props :: "heap \<Rightarrow> jsval \<Rightarrow> obj" where
  "own_props h (Ref a) = deref h a"
| "own_props h (Arr xs) = index_props xs"
| "own_props h (Str s) = index_props (chars_of s)"
| "own_props h v = []"

text \<open>All own properties: strings and arrays also have \<^verbatim>\<open>length\<close>, which is not enumerable.\<close>

fun all_props :: "heap \<Rightarrow> jsval \<Rightarrow> obj" where
  "all_props h (Arr xs) = index_props xs @ [(''length'', Num (int (length xs)))]"
| "all_props h (Str s) = index_props (chars_of s) @ [(''length'', Num (int (length s)))]"
| "all_props h v = own_props h v"

subsection \<open>The prototype chain\<close>

text \<open>
  The built-in prototypes at the end of a chain, and the string-keyed members each
  defines (ECMAScript 2023 with its annex B). All are methods, but for
  \<^verbatim>\<open>Object.prototype.__proto__\<close>, which is an accessor. The \<^verbatim>\<open>length\<close> of
  \<^verbatim>\<open>Array.prototype\<close> and of \<^verbatim>\<open>String.prototype\<close> is left out: an array or a string
  stands before them in every chain and has a \<^verbatim>\<open>length\<close> of its own.
\<close>

datatype builtin =
    Object_prototype
  | Array_prototype
  | String_prototype
  | Number_prototype
  | Boolean_prototype

fun builtin_name :: "builtin \<Rightarrow> string" where
  "builtin_name Object_prototype = ''Object.prototype''"
| "builtin_name Array_prototype = ''Array.prototype''"
| "builtin_name String_prototype = ''String.prototype''"
| "builtin_name Number_prototype = ''Number.prototype''"
| "builtin_name Boolean_prototype = ''Boolean.prototype''"

fun members :: "builtin \<Rightarrow> string list" where
  "members Object_prototype =
     [''constructor'', ''__defineGetter__'', ''__defineSetter__'', ''hasOwnProperty'',
      ''__lookupGetter__'', ''__lookupSetter__'', ''isPrototypeOf'',
      ''propertyIsEnumerable'', ''toString'', ''valueOf'', ''__proto__'',
      ''toLocaleString'']"
| "members Array_prototype =
     [''at'', ''concat'', ''constructor'', ''copyWithin'', ''entries'', ''every'', ''fill'',
      ''filter'', ''find'', ''findIndex'', ''findLast'', ''findLastIndex'', ''flat'',
      ''flatMap'', ''forEach'', ''includes'', ''indexOf'', ''join'', ''keys'',
      ''lastIndexOf'', ''map'', ''pop'', ''push'', ''reduce'', ''reduceRight'', ''reverse'',
      ''shift'', ''slice'', ''some'', ''sort'', ''splice'', ''toLocaleString'',
      ''toReversed'', ''toSorted'', ''toSpliced'', ''toString'', ''unshift'', ''values'',
      ''with'']"
| "members String_prototype =
     [''at'', ''charAt'', ''charCodeAt'', ''codePointAt'', ''concat'', ''constructor'',
      ''endsWith'', ''includes'', ''indexOf'', ''lastIndexOf'', ''localeCompare'',
      ''match'', ''matchAll'', ''normalize'', ''padEnd'', ''padStart'', ''repeat'',
      ''replace'', ''replaceAll'', ''search'', ''slice'', ''split'', ''startsWith'',
      ''substring'', ''toLocaleLowerCase'', ''toLocaleUpperCase'', ''toLowerCase'',
      ''toString'', ''toUpperCase'', ''trim'', ''trimEnd'', ''trimStart'', ''valueOf'',
      ''substr'', ''anchor'', ''big'', ''blink'', ''bold'', ''fixed'', ''fontcolor'',
      ''fontsize'', ''italics'', ''link'', ''small'', ''strike'', ''sub'', ''sup'',
      ''trimLeft'', ''trimRight'']"
| "members Number_prototype =
     [''constructor'', ''toExponential'', ''toFixed'', ''toLocaleString'', ''toPrecision'',
      ''toString'', ''valueOf'']"
| "members Boolean_prototype = [''constructor'', ''toString'', ''valueOf'']"

declare members.simps [simp del]

text \<open>
  A chain is the list of what a property read passes through: the own properties of
  objects, then built-in prototypes. \<open>proto_chain h a p\<close> is the chain above the object
  at address \<open>a\<close>, whose prototype is \<open>p\<close>. The code below gives a prototype only to an
  object it has just created, so a prototype was allocated before the object it serves:
  the chain follows a reference to a lower address only, and is finite. \<^verbatim>\<open>null\<close> ends
  a chain; no other primitive value is ever stored as a prototype.
\<close>

datatype link = Props obj | Builtin builtin

fun proto_chain :: "heap \<Rightarrow> addr \<Rightarrow> proto \<Rightarrow> link list" where
  "proto_chain h a Default = [Builtin Object_prototype]"
| "proto_chain h a (Proto (Ref b)) =
     (if b < a then Props (deref h b) # proto_chain h b (proto_of h b) else [])"
| "proto_chain h a (Proto (Arr xs)) =
     [Props (all_props h (Arr xs)), Builtin Array_prototype, Builtin Object_prototype]"
| "proto_chain h a (Proto v) = []"

fun chain :: "heap \<Rightarrow> jsval \<Rightarrow> link list" where
  "chain h (Ref a) = Props (deref h a) # proto_chain h a (proto_of h a)"
| "chain h (Arr xs) =
     [Props (all_props h (Arr xs)), Builtin Array_prototype, Builtin Object_prototype]"
| "chain h (Str s) =
     [Props (all_props h (Str s)), Builtin String_prototype, Builtin Object_prototype]"
| "chain h (Num n) = [Builtin Number_prototype, Builtin Object_prototype]"
| "chain h (Bool b) = [Builtin Boolean_prototype, Builtin Object_prototype]"
| "chain h v = []"

text \<open>
  What a property read finds: a data property, a built-in function or prototype object
  (named, since it is no value of the store), or nothing.
\<close>

datatype found = Data jsval | Inherited string | Absent

text \<open>The prototype of the value that is read: what the getter of \<^verbatim>\<open>__proto__\<close> returns.\<close>

fun get_prototype :: "heap \<Rightarrow> jsval \<Rightarrow> found" where
  "get_prototype h (Ref a) =
     (case proto_of h a of
        Default \<Rightarrow> Inherited (builtin_name Object_prototype)
      | Proto p \<Rightarrow> Data p)"
| "get_prototype h (Arr xs) = Inherited (builtin_name Array_prototype)"
| "get_prototype h (Str s) = Inherited (builtin_name String_prototype)"
| "get_prototype h (Num n) = Inherited (builtin_name Number_prototype)"
| "get_prototype h (Bool b) = Inherited (builtin_name Boolean_prototype)"
| "get_prototype h v = Absent"

fun lookup_chain :: "found \<Rightarrow> link list \<Rightarrow> string \<Rightarrow> found" where
  "lookup_chain pr [] k = Absent"
| "lookup_chain pr (Props ps # ls) k =
     (case map_of ps k of Some v \<Rightarrow> Data v | None \<Rightarrow> lookup_chain pr ls k)"
| "lookup_chain pr (Builtin b # ls) k =
     (if k \<in> set (members b) then
        (if b = Object_prototype \<and> k = ''__proto__'' then pr
         else Inherited (builtin_name b @ ''.'' @ k))
      else lookup_chain pr ls k)"

text \<open>\<^verbatim>\<open>v[k]\<close> for a value that is neither \<^verbatim>\<open>null\<close> nor \<^verbatim>\<open>undefined\<close>.\<close>

definition lookup :: "heap \<Rightarrow> jsval \<Rightarrow> string \<Rightarrow> found" where
  "lookup h v k = lookup_chain (get_prototype h v) (chain h v) k"

text \<open>
  The read of a key that no built-in prototype defines, where what is found is a value
  of the store or nothing. The selectors read three such keys by name: \<^verbatim>\<open>filters\<close>,
  \<^verbatim>\<open>tags\<close> and \<^verbatim>\<open>selected\<close>.
\<close>

definition get_prop :: "heap \<Rightarrow> jsval \<Rightarrow> string \<Rightarrow> jsval" where
  "get_prop h v k = (case lookup h v k of Data x \<Rightarrow> x | Inherited n \<Rightarrow> Undef | Absent \<Rightarrow> Undef)"

text \<open>\<^verbatim>\<open>v.k\<close> for such a key: reading a member of \<^verbatim>\<open>null\<close> or \<^verbatim>\<open>undefined\<close> throws.\<close>

definition member :: "heap \<Rightarrow> jsval \<Rightarrow> string \<Rightarrow> error + jsval" where
  "member h v k = (if nullish v then Inl TypeError else Inr (get_prop h v k))"

text \<open>\<^verbatim>\<open>k in v\<close>: the right-hand side must be an object (arrays are objects).\<close>

fun has_prop :: "heap \<Rightarrow> string \<Rightarrow> jsval \<Rightarrow> error + bool" where
  "has_prop h k (Ref a) = Inr (lookup h (Ref a) k \<noteq> Absent)"
| "has_prop h k (Arr xs) = Inr (lookup h (Arr xs) k \<noteq> Absent)"
| "has_prop h k v = Inl TypeError"

subsection \<open>Assignment and deletion\<close>

text \<open>
  \<^verbatim>\<open>o[k] = v\<close> on the object at an address. Every property in a chain is a writable
  data property, so the assignment creates or replaces an own property of \<open>o\<close>, with one
  exception: when \<open>k\<close> is \<^verbatim>\<open>__proto__\<close>, \<open>o\<close> has no own property of that name and the
  chain above \<open>o\<close> reaches the accessor of \<^verbatim>\<open>Object.prototype\<close> before a data property
  of that name, the setter runs. It makes an object or \<^verbatim>\<open>null\<close> the prototype of
  \<open>o\<close> and ignores any other value. (The setter throws when the new prototype has \<open>o\<close>
  in its own chain; every object assigned to below is one the code has just created, to
  which no chain leads.)
\<close>

fun setter_first :: "link list \<Rightarrow> bool" where
  "setter_first [] = False"
| "setter_first (Props ps # ls) = (map_of ps ''__proto__'' = None \<and> setter_first ls)"
| "setter_first (Builtin b # ls) =
     (b = Object_prototype \<or> (''__proto__'' \<notin> set (members b) \<and> setter_first ls))"

definition obj_put :: "heap \<Rightarrow> addr \<Rightarrow> string \<Rightarrow> jsval \<Rightarrow> heap" where
  "obj_put h a k v =
     (if k = ''__proto__'' \<and> map_of (deref h a) k = None
         \<and> setter_first (proto_chain h a (proto_of h a))
      then (if is_object v \<or> v = Null then h[a := (deref h a, Proto v)] else h)
      else h[a := (AList.update k v (deref h a), proto_of h a)])"

text \<open>\<^verbatim>\<open>delete o[k]\<close> removes an own property and leaves the chain alone.\<close>

definition obj_delete :: "heap \<Rightarrow> addr \<Rightarrow> string \<Rightarrow> heap" where
  "obj_delete h a k = h[a := (AList.delete k (deref h a), proto_of h a)]"

text \<open>
  \<^verbatim>\<open>{...v}\<close> defines each own enumerable property of \<open>v\<close> on a new object, one named
  \<^verbatim>\<open>__proto__\<close> like any other. \<^verbatim>\<open>Object.assign({}, v)\<close> assigns each of them to a new
  object instead: the one named \<^verbatim>\<open>__proto__\<close>, if there is one, goes to the setter and
  is no own property of the copy.
\<close>

definition spread :: "obj \<Rightarrow> obj \<times> proto" where
  "spread ps = (ps, Default)"

definition object_assign :: "obj \<Rightarrow> obj \<times> proto" where
  "object_assign ps =
     (AList.delete ''__proto__'' ps,
      case map_of ps ''__proto__'' of
        None \<Rightarrow> Default
      | Some p \<Rightarrow> if is_object p \<or> p = Null then Proto p else Default)"

text \<open>
  A \<^verbatim>\<open>Set\<close> is the list of its elements in insertion order. \<^verbatim>\<open>new Set(iterable)\<close>
  keeps the first occurrence of each element; a plain object, a number and a boolean are
  not iterable. Of the built-in objects a read can find, \<^verbatim>\<open>Array.prototype\<close> and
  \<^verbatim>\<open>String.prototype\<close> are iterable, and empty; the others are not.
\<close>

fun first_occurrences :: "'a list \<Rightarrow> 'a list" where
  "first_occurrences [] = []"
| "first_occurrences (x # xs) = x # first_occurrences (filter (\<lambda>y. y \<noteq> x) xs)"

fun new_Set :: "jsval \<Rightarrow> error + jsval list" where
  "new_Set (Arr xs) = Inr (first_occurrences xs)"
| "new_Set (Str s) = Inr (first_occurrences (chars_of s))"
| "new_Set Undef = Inr []"
| "new_Set Null = Inr []"
| "new_Set v = Inl TypeError"

definition new_Set_of_builtin :: "string \<Rightarrow> error + jsval list" where
  "new_Set_of_builtin n =
     (if n = builtin_name Array_prototype \<or> n = builtin_name String_prototype then Inr []
      else Inl TypeError)"

section \<open>The store: atoms, the socket and the order of effects\<close>

text \<open>
  \<^verbatim>\<open>stateDescription\<close> and \<^verbatim>\<open>modalFilters\<close> are atoms holding an object (default
  \<^verbatim>\<open>{}\<close>), \<^verbatim>\<open>selectedSamples\<close> holds a \<^verbatim>\<open>Set<string>\<close> (default empty). The other
  atoms of the store are one field, which no selector below touches. Every write to an
  atom and every \<^verbatim>\<open>socket.send\<close> is appended to \<open>effects\<close>, which records their order.
\<close>

datatype effect = AtomWrite string | SocketSend string obj

record 'o store =
  objects :: heap
  stateDescription :: addr
  selectedSamples :: "string list"
  modalFilters :: addr
  otherAtoms :: 'o
  effects :: "effect list"

definition init_store :: "'o \<Rightarrow> 'o store" where
  "init_store others =
     \<lparr>objects = [([], Default), ([], Default)], stateDescription = 0, selectedSamples = [],
      modalFilters = 1, otherAtoms = others, effects = []\<rparr>"

definition set_selectedSamples :: "string list \<Rightarrow> 'o store \<Rightarrow> 'o store" where
  "set_selectedSamples v s =
     s\<lparr>selectedSamples := v, effects := effects s @ [AtomWrite ''selectedSamples'']\<rparr>"

definition set_stateDescription :: "addr \<Rightarrow> 'o store \<Rightarrow> 'o store" where
  "set_stateDescription a s =
     s\<lparr>stateDescription := a, effects := effects s @ [AtomWrite ''stateDescription'']\<rparr>"

definition set_modalFilters :: "addr \<Rightarrow> 'o store \<Rightarrow> 'o store" where
  "set_modalFilters a s =
     s\<lparr>modalFilters := a, effects := effects s @ [AtomWrite ''modalFilters'']\<rparr>"

text \<open>
  \<^verbatim>\<open>socket.send(packageMessage(type, args))\<close>: the packaging function is not part of
  the sources; the message is recorded as its type and its arguments.
\<close>

definition socket_send :: "string \<Rightarrow> obj \<Rightarrow> 'o store \<Rightarrow> 'o store" where
  "socket_send type args s = s\<lparr>effects := effects s @ [SocketSend type args]\<rparr>"

text \<open>The value a setter receives: \<^verbatim>\<open>DefaultValue\<close> on a reset, a value otherwise.\<close>

datatype 'a setter_arg = DefaultValue | Value 'a

subsection \<open>The \<^verbatim>\<open>filters\<close> selector\<close>

definition filters_get :: "'o store \<Rightarrow> jsval" where
  "filters_get s = get_prop (objects s) (Ref (stateDescription s)) ''filters''"

text \<open>
  The object literal \<^verbatim>\<open>{ ...get(atoms.stateDescription), filters }\<close> is a new object
  with the own properties of the state description and \<^verbatim>\<open>filters\<close> defined on top;
  \<^verbatim>\<open>state.selected = []\<close> is an assignment.
\<close>

definition filters_set :: "jsval setter_arg \<Rightarrow> 'o store \<Rightarrow> 'o store" where
  "filters_set arg s =
     (let (h1, filters) =
            (case arg of
               DefaultValue \<Rightarrow> (let (h, a) = alloc (objects s) ([], Default) in (h, Ref a))
             | Value f \<Rightarrow> (objects s, f));
          (h2, state) =
            alloc h1 (AList.update ''filters'' filters
                        (own_props h1 (Ref (stateDescription s))), Default);
          h3 = obj_put h2 state ''selected'' (Arr []);
          s1 = set_selectedSamples [] (s\<lparr>objects := h3\<rparr>);
          s2 = socket_send ''filters_update'' [(''filters'', filters)] s1
      in set_stateDescription state s2)"

subsection \<open>The \<^verbatim>\<open>filterStage\<close> selector family\<close>

text \<open>\<^verbatim>\<open>get(modal ? modalFilters : filters)\<close>.\<close>

definition get_filters :: "bool \<Rightarrow> 'o store \<Rightarrow> jsval" where
  "get_filters modal s = (if modal then Ref (modalFilters s) else filters_get s)"

text \<open>
  A read gives a value found in the store, or a built-in member that the path names, or
  the object that \<^verbatim>\<open>?? {}\<close> creates on the spot.
\<close>

datatype read = Stored jsval | Fresh obj | Member string

definition filterStage_get :: "string \<Rightarrow> bool \<Rightarrow> 'o store \<Rightarrow> read" where
  "filterStage_get path modal s =
     (let v = get_filters modal s
      in if nullish v then Fresh []
         else (case lookup (objects s) v path of
                 Data x \<Rightarrow> if nullish x then Fresh [] else Stored x
               | Inherited n \<Rightarrow> Member n
               | Absent \<Rightarrow> Fresh []))"

text \<open>
  The setter takes any value: \<^verbatim>\<open>null\<close> deletes the entry, everything else is
  assigned, \<^verbatim>\<open>undefined\<close> and the object \<^verbatim>\<open>DefaultValue\<close> of a reset included.
\<close>

definition filterStage_set :: "string \<Rightarrow> bool \<Rightarrow> jsval \<Rightarrow> 'o store \<Rightarrow> 'o store" where
  "filterStage_set path modal filter_arg s =
     (let (h1, newFilters) =
            alloc (objects s) (object_assign (own_props (objects s) (get_filters modal s)));
          h2 = (if filter_arg = Null then obj_delete h1 newFilters path
                else obj_put h1 newFilters path filter_arg);
          s1 = s\<lparr>objects := h2\<rparr>
      in if modal then set_modalFilters newFilters s1
         else filters_set (Value (Ref newFilters)) s1)"

subsection \<open>The \<^verbatim>\<open>matchedTags\<close> selector family\<close>

definition matchedTags_get :: "string \<Rightarrow> bool \<Rightarrow> 'o store \<Rightarrow> error + jsval list" where
  "matchedTags_get key modal s =
     (case member (objects s) (get_filters modal s) ''tags'' of
        Inl e \<Rightarrow> Inl e
      | Inr tags \<Rightarrow>
          if truthy tags then
            (case lookup (objects s) tags key of
               Data x \<Rightarrow> if truthy x then new_Set x else Inr []
             | Inherited n \<Rightarrow> new_Set_of_builtin n
             | Absent \<Rightarrow> Inr [])
          else Inr [])"

text \<open>\<^verbatim>\<open>value instanceof Set && value.size\<close>, and \<^verbatim>\<open>Array.from(value)\<close> for a set.\<close>

fun nonempty_Set :: "string list setter_arg \<Rightarrow> bool" where
  "nonempty_Set DefaultValue = False"
| "nonempty_Set (Value xs) = (xs \<noteq> [])"

fun array_from :: "string list setter_arg \<Rightarrow> jsval" where
  "array_from DefaultValue = Arr []"
| "array_from (Value xs) = Arr (map Str xs)"

text \<open>
  In \<^verbatim>\<open>{ ...(stages.tags || {}) }\<close> the object \<^verbatim>\<open>{}\<close> on the right of \<^verbatim>\<open>||\<close> has no
  property to copy and is dropped at once; it is not given an address. An exception
  leaves the store as it was: the setter has written no atom before it can throw.
\<close>

definition matchedTags_set ::
  "string \<Rightarrow> bool \<Rightarrow> string list setter_arg \<Rightarrow> 'o store \<Rightarrow> error + 'o store" where
  "matchedTags_set key modal val s =
     (let (h1, stages) =
            alloc (objects s) (spread (own_props (objects s) (get_filters modal s)));
          stages_tags = get_prop h1 (Ref stages) ''tags'';
          (h2, tags) =
            alloc h1 (spread (if truthy stages_tags then own_props h1 stages_tags else []));
          r = (if nonempty_Set val then Inr (obj_put h2 tags key (array_from val))
               else if truthy stages_tags then
                 (case has_prop h2 key stages_tags of
                    Inl e \<Rightarrow> Inl e
                  | Inr b \<Rightarrow> Inr (if b then obj_delete h2 tags key else h2))
               else Inr h2)
      in case r of
           Inl e \<Rightarrow> Inl e
         | Inr h3 \<Rightarrow>
             (let h4 = obj_put h3 stages ''tags'' (Ref tags);
                  h5 = (if deref h4 tags = [] then obj_delete h4 stages ''tags'' else h4);
                  s1 = s\<lparr>objects := h5\<rparr>
              in Inr (if modal then set_modalFilters stages s1
                      else filters_set (Value (Ref stages)) s1)))"

text \<open>A reference is live when it points to an allocated object; other values always are.\<close>

fun live :: "heap \<Rightarrow> jsval \<Rightarrow> bool" where
  "live h (Ref a) = (a < length h)"
| "live h v = True"

section \<open>The event subscriber of the dataset page\<close>

text \<open>
  The payload of a \<^verbatim>\<open>state_update\<close> event is the result of \<^verbatim>\<open>JSON.parse\<close>: a tree
  that nothing else refers to and that the handler never assigns into, so it is modelled
  by value. \<^verbatim>\<open>undefined\<close> is a value of its own, since
  \<^verbatim>\<open>view: data.view\<close> stores it under \<^verbatim>\<open>view\<close> when the payload has no such field.
\<close>

datatype json =
    JUndefined
  | JNull
  | JBool bool
  | JNumber int
  | JString string
  | JArray "json list"
  | JObject "(string \<times> json) list"

definition jnullish :: "json \<Rightarrow> bool" where
  "jnullish v = (v = JUndefined \<or> v = JNull)"

definition jindex_props :: "json list \<Rightarrow> (string \<times> json) list" where
  "jindex_props xs = zip (map string_of_nat [0..<length xs]) xs"

text \<open>
  Own enumerable properties (copied by a spread or a rest pattern) and all own
  properties. The handler reads four keys by name, \<^verbatim>\<open>state\<close>, \<^verbatim>\<open>colorscale\<close>,
  \<^verbatim>\<open>config\<close> and \<^verbatim>\<open>view\<close>; no built-in prototype defines one of them, so a read
  finds an own property or nothing.
\<close>

fun jown_props :: "json \<Rightarrow> (string \<times> json) list" where
  "jown_props (JObject ob) = ob"
| "jown_props (JArray xs) = jindex_props xs"
| "jown_props (JString s) = jindex_props (map (\<lambda>c. JString [c]) s)"
| "jown_props v = []"

fun jall_props :: "json \<Rightarrow> (string \<times> json) list" where
  "jall_props (JArray xs) = jindex_props xs @ [(''length'', JNumber (int (length xs)))]"
| "jall_props (JString s) =
     jindex_props (map (\<lambda>c. JString [c]) s) @ [(''length'', JNumber (int (length s)))]"
| "jall_props v = jown_props v"

definition jget :: "json \<Rightarrow> string \<Rightarrow> json" where
  "jget v k = (case map_of (jall_props v) k of None \<Rightarrow> JUndefined | Some x \<Rightarrow> x)"

definition jmember :: "json \<Rightarrow> string \<Rightarrow> error + json" where
  "jmember v k = (if jnullish v then Inl TypeError else Inr (jget v k))"

definition STATE_UPDATE :: string where
  "STATE_UPDATE = ''state_update''"

record message =
  event :: string
  data :: string

text \<open>
  \<open>aborted\<close> is \<^verbatim>\<open>controller.signal.aborted\<close>; \<open>initialState\<close> is the React state
  cell behind \<^verbatim>\<open>setInitialState\<close>, \<^verbatim>\<open>undefined\<close> until the first update;
  \<open>setStateCalls\<close> counts the calls of the setter.
\<close>

record subscriber =
  aborted :: bool
  initialState :: json
  setStateCalls :: nat


text \<open>The clean-up of the effect: \<^verbatim>\<open>() => controller.abort()\<close>.\<close>

definition abort :: "subscriber \<Rightarrow> subscriber" where
  "abort sub = sub\<lparr>aborted := True\<rparr>"

text \<open>\<^verbatim>\<open>setState((s) => v)\<close>: the updater ignores the previous state.\<close>

definition setState :: "json \<Rightarrow> subscriber \<Rightarrow> subscriber" where
  "setState v sub = sub\<lparr>initialState := v, setStateCalls := Suc (setStateCalls sub)\<rparr>"

text \<open>
  \<^verbatim>\<open>const { colorscale, config, ...data } = st\<close>: destructuring \<^verbatim>\<open>null\<close> or
  \<^verbatim>\<open>undefined\<close> throws; \<open>data\<close> gets the remaining own enumerable properties.
\<close>

definition rest_data :: "(string \<times> json) list \<Rightarrow> (string \<times> json) list" where
  "rest_data ps = filter (\<lambda>(k, v). k \<noteq> ''colorscale'' \<and> k \<noteq> ''config'') ps"

definition destructure :: "json \<Rightarrow> error + json \<times> json \<times> (string \<times> json) list" where
  "destructure st =
     (if jnullish st then Inl TypeError
      else Inr (jget st ''colorscale'', jget st ''config'', rest_data (jown_props st)))"

text \<open>
  The handler \<^verbatim>\<open>onmessage\<close>. \<^verbatim>\<open>JSON.parse\<close> and \<^verbatim>\<open>toCamelCase\<close> (imported from
  another package, not part of the sources) are parameters: \<open>parse\<close> gives the decoded
  value or the error it throws, \<open>toCamelCase\<close> maps the residual object to the converted
  one and leaves its argument as it is.
\<close>

definition onmessage ::
  "(string \<Rightarrow> error + json) \<Rightarrow> (json \<Rightarrow> json) \<Rightarrow> message \<Rightarrow> subscriber \<Rightarrow> error + subscriber"
  where
  "onmessage parse toCamelCase msg sub =
     (if aborted sub then Inr sub
      else if event msg = STATE_UPDATE then
        (case parse (data msg) of
           Inl e \<Rightarrow> Inl e
         | Inr decoded \<Rightarrow>
             (case jmember decoded ''state'' of
                Inl e \<Rightarrow> Inl e
              | Inr st \<Rightarrow>
                  (case destructure st of
                     Inl e \<Rightarrow> Inl e
                   | Inr (colorscale, config, d) \<Rightarrow>
                       (let state =
                              JObject (AList.update ''view'' (jget (JObject d) ''view'')
                                         (jown_props (toCamelCase (JObject d))))
                        in Inr (setState
                                  (JObject [(''colorscale'', colorscale), (''config'', config),
                                            (''state'', state)])
                                  sub)))))
      else Inr sub)"

text \<open>
  The event source calls the handler once for each message, in order; an exception
  escapes to the event source.
\<close>

fun deliver ::
  "(string \<Rightarrow> error + json) \<Rightarrow> (json \<Rightarrow> json) \<Rightarrow> message list \<Rightarrow> subscriber \<Rightarrow> error + subscriber"
  where
  "deliver parse toCamelCase [] sub = Inr sub"
| "deliver parse toCamelCase (msg # msgs) sub =
     (case onmessage parse toCamelCase msg sub of
        Inl e \<Rightarrow> Inl e
      | Inr sub' \<Rightarrow> deliver parse toCamelCase msgs sub')"

section \<open>The theme: the palettes of the colour schemes\<close>

text \<open>
  The palettes as the source passes them to \<^verbatim>\<open>createTheme\<close>: a key holds a colour or a
  group of named colours. A token is the path to a colour.
\<close>

datatype entry = Color string | Group "(string \<times> string) list"

type_synonym palette = "(string \<times> entry) list"

definition light_palette :: palette where
  "light_palette =
     [(''background'', Group
         [(''body'', ''hsl(200, 0%, 85%)''),
          (''level1'', ''hsl(200, 0%, 90%)''),
          (''level2'', ''hsl(200, 0%, 98%)''),
          (''level3'', ''hsl(200, 0%, 95%)''),
          (''header'', ''hsl(200, 0%, 100%)''),
          (''sidebar'', ''hsl(200, 0%, 98%)''),
          (''tooltip'', ''hsl(200, 0%, 100%)''),
          (''input'', ''hsl(200, 0%, 98%)'')]),
      (''divider'', Color ''hsl(200, 0%, 80%)''),
      (''danger'', Group [(''plainColor'', ''hsl(0, 87%, 47%)'')]),
      (''grey'', Group [(''400'', ''#fff'')]),
      (''neutral'', Group
         [(''softBg'', ''hsl(200, 0%, 95%)''),
          (''softBorder'', ''hsl(200, 0%, 75%)''),
          (''plainColor'', ''hsl(213, 100%, 47%)'')]),
      (''primary'', Group
         [(''main'', ''hsl(25, 100%, 51%)''),
          (''plainColor'', ''hsl(25, 100%, 51%)''),
          (''plainBorder'', ''hsl(200, 0%, 90%)''),
          (''softBg'', ''hsl(200, 0%, 85%, 0.7)''),
          (''softBorder'', ''hsl(200, 0%, 80%)'')]),
      (''focusVisible'', Color ''hsl(212, 97%, 57%, 0.3)''),
      (''text'', Group
         [(''primary'', ''hsl(200, 0%, 0%)''),
          (''secondary'', ''hsl(200, 0%, 30%)''),
          (''tertiary'', ''hsl(200, 0%, 50%)''),
          (''buttonHighlight'', ''hsl(200, 0%, 100%)'')])]"

definition dark_palette :: palette where
  "dark_palette =
     [(''background'', Group
         [(''body'', ''hsl(200, 0%, 15%)''),
          (''level1'', ''hsl(200, 0%, 20%)''),
          (''level2'', ''hsl(200, 0%, 10%)''),
          (''level3'', ''hsl(200, 0%, 5%)''),
          (''header'', ''hsl(200, 0%, 15%)''),
          (''sidebar'', ''hsl(200, 0%, 10%)''),
          (''tooltip'', ''hsl(200, 0%, 5%)'')]),
      (''divider'', Color ''hsl(200, 0%, 20%)''),
      (''danger'', Group [(''plainColor'', ''hsl(0, 87%, 53%)'')]),
      (''grey'', Group [(''400'', ''#fff'')]),
      (''neutral'', Group
         [(''softBg'', ''hsl(200, 0%, 20%, 0.3)''),
          (''softBorder'', ''hsl(200, 0%, 25%)''),
          (''plainColor'', ''hsl(213, 100%, 53%)'')]),
      (''primary'', Group
         [(''main'', ''hsl(25, 100%, 51%)''),
          (''plainColor'', ''hsl(25, 100%, 51%)''),
          (''plainBorder'', ''hsl(200, 0%, 5%)''),
          (''softBg'', ''hsl(200, 0%, 15%, 0.7)''),
          (''softBorder'', ''hsl(200, 0%, 20%)'')]),
      (''focusVisible'', Color ''hsl(212, 97%, 43%, 0.3)''),
      (''text'', Group
         [(''primary'', ''hsl(200, 0%, 100%)''),
          (''secondary'', ''hsl(200, 0%, 70%)''),
          (''tertiary'', ''hsl(200, 0%, 50%)'')])]"

definition colorSchemes :: "(string \<times> palette) list" where
  "colorSchemes = [(''light'', light_palette), (''dark'', dark_palette)]"

fun entry_tokens :: "string \<times> entry \<Rightarrow> string list list" where
  "entry_tokens (k, Color c) = [[k]]"
| "entry_tokens (k, Group g) = map (\<lambda>(k', c). [k, k']) g"

definition tokens :: "palette \<Rightarrow> string list list" where
  "tokens p = concat (map entry_tokens p)"


section \<open>Example inputs\<close>

text \<open>
  A store in which both filter objects are populated. The state description (object 0)
  holds a view and the filters (object 1); the filters hold the tags (object 2) and a
  filter on the path \<^verbatim>\<open>uniqueness\<close> (object 3). The modal filters (object 4) hold
  tags of their own (object 5). Two samples are selected. Every object has
  \<^verbatim>\<open>Object.prototype\<close> as its prototype.
\<close>

definition sample_store :: "unit store" where
  "sample_store =
     \<lparr>objects = [([(''view'', Arr []), (''filters'', Ref 1)], Default),
                 ([(''tags'', Ref 2), (''uniqueness'', Ref 3)], Default),
                 ([(''sample'', Arr [Str ''cat''])], Default),
                 ([(''range'', Arr [Num 0, Num 1])], Default),
                 ([(''tags'', Ref 5)], Default),
                 ([(''label'', Arr [Str ''dog''])], Default)],
      stateDescription = 0, selectedSamples = [''s1'', ''s2''],
      modalFilters = 4, otherAtoms = (), effects = []\<rparr>"




section \<open>Facts about the heap and the prototype chain\<close>

lemma deref_alloc_new [simp]: "deref (h @ c # rest) (length h) = fst c"
  by (simp add: deref_def nth_append)

lemma proto_of_alloc_new [simp]: "proto_of (h @ c # rest) (length h) = snd c"
  by (simp add: proto_of_def nth_append)

lemma deref_alloc_next [simp]: "deref (h @ c # c' # rest) (Suc (length h)) = fst c'"
  by (simp add: deref_def nth_append)

lemma proto_of_alloc_next [simp]: "proto_of (h @ c # c' # rest) (Suc (length h)) = snd c'"
  by (simp add: proto_of_def nth_append)

lemma deref_alloc_old [simp]: "a < length h \<Longrightarrow> deref (h @ rest) a = deref h a"
  by (simp add: deref_def nth_append)

lemma proto_of_alloc_old [simp]: "a < length h \<Longrightarrow> proto_of (h @ rest) a = proto_of h a"
  by (simp add: proto_of_def nth_append)

lemma deref_alloc_same [simp]: "deref (h @ [(deref h a, p)]) a = deref h a"
  by (simp add: deref_def nth_append)

lemma map_of_None_keys: "map_of al k = None \<longleftrightarrow> k \<notin> fst ` set al"
  by (simp add: map_of_eq_None_iff)

text \<open>A chain reads objects at lower addresses only, so an allocation leaves it as it is.\<close>

lemma proto_chain_append:
  "a \<le> length h \<Longrightarrow> proto_chain (h @ rest) a p = proto_chain h a p"
  by (induction h a p rule: proto_chain.induct) simp_all

lemma lookup_append:
  assumes "live h v"
  shows "lookup (h @ rest) v k = lookup h v k"
proof (cases v)
  case (Ref a)
  with assms show ?thesis
    by (simp add: lookup_def proto_chain_append)
qed (simp_all add: lookup_def)

lemma get_prop_append: "live h v \<Longrightarrow> get_prop (h @ rest) v k = get_prop h v k"
  by (simp add: get_prop_def lookup_append)

lemma heap_extends:
  assumes "take (length h) h' = h"
  shows "h' = h @ drop (length h) h'"
  by (metis assms append_take_drop_id)

lemma get_prop_take:
  assumes "take (length h) h' = h" and "live h v"
  shows "get_prop h' v k = get_prop h v k"
  using get_prop_append [OF assms(2), of "drop (length h) h'" k] heap_extends [OF assms(1)]
  by simp

lemma own_props_live: "live h v \<Longrightarrow> own_props (h @ rest) v = own_props h v"
  by (cases v) simp_all

text \<open>An own enumerable property is what a read finds first.\<close>

lemma lookup_own:
  "map_of (own_props h v) k = Some x \<Longrightarrow> lookup h v k = Data x"
  by (cases v) (simp_all add: lookup_def map_of_append)

lemma get_prop_own: "map_of (own_props h v) k = Some x \<Longrightarrow> get_prop h v k = x"
  by (simp add: get_prop_def lookup_own)

text \<open>A read of an object that has \<^verbatim>\<open>Object.prototype\<close> as its prototype.\<close>

lemma lookup_plain:
  assumes "proto_of h a = Default"
  shows "lookup h (Ref a) k =
    (case map_of (deref h a) k of
       Some x \<Rightarrow> Data x
     | None \<Rightarrow>
         if k \<in> set (members Object_prototype) then
           (if k = ''__proto__'' then Inherited (builtin_name Object_prototype)
            else Inherited (builtin_name Object_prototype @ ''.'' @ k))
         else Absent)"
  using assms by (simp add: lookup_def split: option.splits)

lemma get_prop_plain:
  assumes "proto_of h a = Default" and "k \<notin> set (members Object_prototype)"
  shows "get_prop h (Ref a) k = (case map_of (deref h a) k of None \<Rightarrow> Undef | Some x \<Rightarrow> x)"
  using assms by (simp add: get_prop_def lookup_plain split: option.splits)

text \<open>No built-in prototype defines the three keys that the selectors read by name.\<close>

lemma lookup_chain_data_key:
  assumes "\<forall>b. k \<notin> set (members b)"
  shows "lookup_chain pr ls k \<noteq> Inherited n"
  using assms by (induction pr ls k rule: lookup_chain.induct) (auto split: option.splits)

lemma tags_no_member: "''tags'' \<notin> set (members b)"
  by (cases b) (simp_all add: members.simps)

lemma filters_no_member: "''filters'' \<notin> set (members b)"
  by (cases b) (simp_all add: members.simps)

lemma selected_no_member: "''selected'' \<notin> set (members b)"
  by (cases b) (simp_all add: members.simps)

lemma lookup_data_key:
  assumes "\<forall>b. k \<notin> set (members b)"
  shows "lookup h v k \<noteq> Inherited n"
  using assms by (simp add: lookup_def lookup_chain_data_key)

lemma lookup_tags: "lookup h v ''tags'' \<noteq> Inherited n"
  by (simp add: lookup_data_key tags_no_member)

lemma lookup_filters: "lookup h v ''filters'' \<noteq> Inherited n"
  by (simp add: lookup_data_key filters_no_member)

lemma lookup_selected: "lookup h v ''selected'' \<noteq> Inherited n"
  by (simp add: lookup_data_key selected_no_member)

text \<open>Assignment and deletion act on the one object.\<close>

lemma length_obj_put [simp]: "length (obj_put h a k v) = length h"
  by (simp add: obj_put_def)

lemma length_obj_delete [simp]: "length (obj_delete h a k) = length h"
  by (simp add: obj_delete_def)

lemma take_obj_put [simp]: "n \<le> a \<Longrightarrow> take n (obj_put h a k v) = take n h"
  by (simp add: obj_put_def)

lemma take_obj_delete [simp]: "n \<le> a \<Longrightarrow> take n (obj_delete h a k) = take n h"
  by (simp add: obj_delete_def)

lemma obj_put_data_key:
  "k \<noteq> ''__proto__'' \<Longrightarrow>
   obj_put (h @ [c]) (length h) k v = h @ [(AList.update k v (fst c), snd c)]"
  by (simp add: obj_put_def)

lemma obj_delete_new:
  "obj_delete (h @ [c]) (length h) k = h @ [(AList.delete k (fst c), snd c)]"
  by (simp add: obj_delete_def)


text \<open>A read of the object allocated last but \<open>rest\<close>.\<close>

lemma lookup_new:
  "lookup (h @ c # rest) (Ref (length h)) k =
     lookup_chain (case snd c of
                     Default \<Rightarrow> Inherited (builtin_name Object_prototype)
                   | Proto p \<Rightarrow> Data p)
       (Props (fst c) # proto_chain h (length h) (snd c)) k"
  using proto_chain_append [of "length h" h "c # rest" "snd c"]
  by (simp add: lookup_def)

lemma lookup_new_own:
  "map_of (fst c) k = Some x \<Longrightarrow> lookup (h @ c # rest) (Ref (length h)) k = Data x"
  by (simp add: lookup_new)

lemma lookup_new_plain:
  assumes "snd c = Default" and "map_of (fst c) k = None"
  shows "lookup (h @ c # rest) (Ref (length h)) k =
     (if k \<in> set (members Object_prototype) then
        (if k = ''__proto__'' then Inherited (builtin_name Object_prototype)
         else Inherited (builtin_name Object_prototype @ ''.'' @ k))
      else Absent)"
  using assms by (simp add: lookup_new)

lemma get_prop_new:
  assumes "snd c = Default" and "k \<notin> set (members Object_prototype)"
  shows "get_prop (h @ c # rest) (Ref (length h)) k =
     (case map_of (fst c) k of None \<Rightarrow> Undef | Some x \<Rightarrow> x)"
  using assms by (simp add: get_prop_def lookup_new split: option.splits)

section \<open>Facts about the setters\<close>

lemmas store_ops =
  set_selectedSamples_def set_stateDescription_def set_modalFilters_def socket_send_def

text \<open>The setters, written out as one update of the store.\<close>

lemma filters_set_Value:
  "filters_set (Value F) s =
     s\<lparr>objects := objects s @
         [(AList.update ''selected'' (Arr [])
             (AList.update ''filters'' F (deref (objects s) (stateDescription s))), Default)],
       selectedSamples := [],
       stateDescription := length (objects s),
       effects := effects s @
         [AtomWrite ''selectedSamples'', SocketSend ''filters_update'' [(''filters'', F)],
          AtomWrite ''stateDescription'']\<rparr>"
  by (simp add: filters_set_def alloc_def obj_put_data_key store_ops)

lemma filters_set_DefaultValue:
  "filters_set DefaultValue s =
     s\<lparr>objects := objects s @
         [([], Default),
          (AList.update ''selected'' (Arr [])
             (AList.update ''filters'' (Ref (length (objects s)))
                (deref (objects s @ [([], Default)]) (stateDescription s))), Default)],
       selectedSamples := [],
       stateDescription := Suc (length (objects s)),
       effects := effects s @
         [AtomWrite ''selectedSamples'',
          SocketSend ''filters_update'' [(''filters'', Ref (length (objects s)))],
          AtomWrite ''stateDescription'']\<rparr>"
  using obj_put_data_key [of "''selected''" "objects s @ [([], Default)]"]
  by (simp add: filters_set_def alloc_def store_ops)

lemma selectedSamples_filters_set [simp]: "selectedSamples (filters_set arg s) = []"
  by (cases arg) (simp_all add: filters_set_Value filters_set_DefaultValue)

lemma objects_filters_set:
  "objects (filters_set (Value F) s) = objects s @
     [(AList.update ''selected'' (Arr [])
         (AList.update ''filters'' F (deref (objects s) (stateDescription s))), Default)]"
  by (simp add: filters_set_Value)

lemma filters_get_filters_set [simp]: "filters_get (filters_set (Value F) s) = F"
  by (simp add: filters_set_Value filters_get_def get_prop_new filters_no_member update_conv')


lemma filterStage_set_modal:
  "filterStage_set path True v s =
     s\<lparr>objects :=
         (if v = Null
          then obj_delete (objects s @ [object_assign (deref (objects s) (modalFilters s))])
                 (length (objects s)) path
          else obj_put (objects s @ [object_assign (deref (objects s) (modalFilters s))])
                 (length (objects s)) path v),
       modalFilters := length (objects s),
       effects := effects s @ [AtomWrite ''modalFilters'']\<rparr>"
  by (simp add: filterStage_set_def get_filters_def alloc_def store_ops)

lemma filterStage_set_grid:
  "filterStage_set path False v s =
     filters_set (Value (Ref (length (objects s))))
       (s\<lparr>objects :=
           (if v = Null
            then obj_delete (objects s @ [object_assign (own_props (objects s) (filters_get s))])
                   (length (objects s)) path
            else obj_put (objects s @ [object_assign (own_props (objects s) (filters_get s))])
                   (length (objects s)) path v)\<rparr>)"
  by (simp add: filterStage_set_def get_filters_def alloc_def)

text \<open>
  After a \<^verbatim>\<open>filterStage\<close> write the filters are a newly allocated object, and every
  object allocated before has the properties it had.
\<close>

lemma filterStage_set_new_address:
  "get_filters m (filterStage_set P m V s) = Ref (length (objects s))"
  by (cases m) (simp_all add: filterStage_set_modal filterStage_set_grid get_filters_def)

lemma filterStage_set_keeps_objects:
  "take (length (objects s)) (objects (filterStage_set P m V s)) = objects s"
  by (cases m) (simp_all add: filterStage_set_modal filterStage_set_grid objects_filters_set)

text \<open>
  The objects after the write: the old ones, then the copy with the entry deleted or
  assigned, then (outside the modal context) the new state description.
\<close>

lemma filterStage_set_null_objects:
  "\<exists>rest. objects (filterStage_set P m Null s) =
     objects s @
       (AList.delete P (fst (object_assign (own_props (objects s) (get_filters m s)))),
        snd (object_assign (own_props (objects s) (get_filters m s)))) # rest"
  by (cases m)
    (simp_all add: filterStage_set_modal filterStage_set_grid objects_filters_set
      get_filters_def obj_delete_new)

lemma filterStage_set_value_objects:
  assumes "V \<noteq> Null" and "P \<noteq> ''__proto__''"
  shows "\<exists>rest. objects (filterStage_set P m V s) =
     objects s @
       (AList.update P V (fst (object_assign (own_props (objects s) (get_filters m s)))),
        snd (object_assign (own_props (objects s) (get_filters m s)))) # rest"
  using assms
  by (cases m)
    (simp_all add: filterStage_set_modal filterStage_set_grid objects_filters_set
      get_filters_def obj_put_data_key)

text \<open>\<^verbatim>\<open>Object.assign\<close> from an object without an own entry \<^verbatim>\<open>__proto__\<close> is a plain copy.\<close>

lemma object_assign_plain:
  "map_of ps ''__proto__'' = None \<Longrightarrow> object_assign ps = (ps, Default)"
proof -
  assume none: "map_of ps ''__proto__'' = None"
  then have "''__proto__'' \<notin> fst ` set ps"
    by (simp add: map_of_None_keys)
  with none show ?thesis
    by (simp add: object_assign_def)
qed

lemma object_assign_entries:
  "Q \<noteq> ''__proto__'' \<Longrightarrow> map_of (fst (object_assign ps)) Q = map_of ps Q"
  by (simp add: object_assign_def)

text \<open>
  \<^verbatim>\<open>key in stages.tags\<close> is false only when the copy of the tags has no such key, so
  the branch for an empty set leaves the copy without it either way.
\<close>

lemma has_prop_absent:
  assumes "has_prop (h @ [(own_props h t, p)]) key t = Inr False"
  shows "AList.delete key (own_props h t) = own_props h t"
proof (cases t)
  case (Ref a)
  with assms have "map_of (deref h a) key = None"
    by (simp add: lookup_def split: option.splits)
  with Ref show ?thesis by (simp add: map_of_None_keys)
next
  case (Arr xs)
  with assms have "map_of (index_props xs) key = None"
    by (simp add: lookup_def map_of_append split: option.splits)
  with Arr show ?thesis by (simp add: map_of_None_keys)
qed (use assms in auto)

lemma has_prop_absent2:
  "has_prop (h @ [F, (own_props (h @ [F]) t, p)]) key t = Inr False \<Longrightarrow>
   AList.delete key (own_props (h @ [F]) t) = own_props (h @ [F]) t"
  using has_prop_absent [of "h @ [F]" t p key] by simp

lemma matchedTags_set_empty:
  assumes "matchedTags_set key m val s = Inr s'" and "\<not> nonempty_Set val"
  shows "s' =
    (let h = objects s;
         F0 = own_props h (get_filters m s);
         t0 = get_prop (h @ [(F0, Default)]) (Ref (length h)) ''tags'';
         T1 = AList.delete key
                (if truthy t0 then own_props (h @ [(F0, Default)]) t0 else []);
         s1 = s\<lparr>objects := h @
                [(if T1 = [] then AList.delete ''tags'' F0
                  else AList.update ''tags'' (Ref (Suc (length h))) F0, Default),
                 (T1, Default)]\<rparr>
     in if m then set_modalFilters (length h) s1
        else filters_set (Value (Ref (length h))) s1)"
  using assms
  by (auto simp add: matchedTags_set_def alloc_def spread_def obj_put_def obj_delete_def Let_def
      list_update_append delete_update_same dest: has_prop_absent2
      split: sum.splits if_splits)

text \<open>What the setter reads as \<^verbatim>\<open>stages.tags\<close>: the own entry of the stored filters.\<close>

lemma stages_tags:
  "get_prop (h @ [(own_props h v, Default)]) (Ref (length h)) ''tags'' =
     (case map_of (own_props h v) ''tags'' of None \<Rightarrow> Undef | Some x \<Rightarrow> x)"
  by (simp add: get_prop_new tags_no_member)

text \<open>The write throws only when the stored tags are a truthy primitive value.\<close>

lemma matchedTags_set_succeeds:
  assumes "\<not> truthy (get_prop (objects s) (get_filters m s) ''tags'') \<or>
           (\<exists>a. get_prop (objects s) (get_filters m s) ''tags'' = Ref a) \<or>
           (\<exists>xs. get_prop (objects s) (get_filters m s) ''tags'' = Arr xs)"
  shows "\<exists>s'. matchedTags_set key m val s = Inr s'"
proof -
  let ?t = "get_prop (objects s @ [(own_props (objects s) (get_filters m s), Default)])
              (Ref (length (objects s))) ''tags''"
  have "\<not> truthy ?t \<or> (\<exists>a. ?t = Ref a) \<or> (\<exists>xs. ?t = Arr xs)"
  proof (cases "map_of (own_props (objects s) (get_filters m s)) ''tags''")
    case None
    then show ?thesis by (simp add: stages_tags)
  next
    case (Some x)
    then have "?t = x" and "get_prop (objects s) (get_filters m s) ''tags'' = x"
      by (simp_all add: stages_tags get_prop_own)
    with assms show ?thesis by simp
  qed
  then show ?thesis
    by (auto simp add: matchedTags_set_def alloc_def spread_def Let_def split: sum.splits)
qed

lemma matchedTags_set_modal_frame:
  assumes "matchedTags_set key True val s = Inr s'"
  shows "stateDescription s' = stateDescription s \<and> selectedSamples s' = selectedSamples s \<and>
     otherAtoms s' = otherAtoms s \<and> effects s' = effects s @ [AtomWrite ''modalFilters''] \<and>
     take (length (objects s)) (objects s') = objects s"
  using assms
  by (auto simp add: matchedTags_set_def alloc_def spread_def store_ops Let_def
      split: sum.splits if_splits)

lemma matchedTags_set_grid_selected:
  assumes "matchedTags_set key False val s = Inr s'"
  shows "selectedSamples s' = []"
  using assms
  by (auto simp add: matchedTags_set_def alloc_def Let_def split: sum.splits if_splits)

lemmas sample_eval =
  sample_store_def matchedTags_set_def filterStage_set_def filters_set_def get_filters_def
  filters_get_def alloc_def spread_def object_assign_def obj_put_def obj_delete_def
  get_prop_def lookup_def deref_def proto_of_def members.simps store_ops Let_def

text \<open>
  The path \<^verbatim>\<open>__proto__\<close> in the example store. A number written there is ignored by
  the setter of \<^verbatim>\<open>Object.prototype\<close>, and the read gives the prototype. An object
  written there becomes the prototype of the copy: the path \<^verbatim>\<open>range\<close>, which read as
  the empty object before, now reads the entry of that object.
\<close>

lemma filterStage_set_proto_number:
  "filterStage_get ''__proto__'' True (filterStage_set ''__proto__'' True (Num 7) sample_store)
     = Member ''Object.prototype''"
  by (simp add: filterStage_get_def nullish_def sample_eval)

lemma filterStage_set_proto_object:
  "filterStage_get ''range'' True sample_store = Fresh [] \<and>
   filterStage_get ''range'' True (filterStage_set ''__proto__'' True (Ref 3) sample_store)
     = Stored (Arr [Num 0, Num 1]) \<and>
   filterStage_get ''__proto__'' True (filterStage_set ''__proto__'' True (Ref 3) sample_store)
     = Stored (Ref 3)"
  by (simp add: filterStage_get_def nullish_def sample_eval)

lemma onmessage_aborted: "aborted sub \<Longrightarrow> onmessage parse toCamelCase msg sub = Inr sub"
  by (simp add: onmessage_def)

lemma deliver_aborted: "aborted sub \<Longrightarrow> deliver parse toCamelCase msgs sub = Inr sub"
  by (induction msgs) (simp_all add: onmessage_aborted)


section \<open>The filters selector\<close>

text \<open>
  C1. A write of a filters object \<open>F\<close> to the top-level \<^verbatim>\<open>filters\<close> selector leaves
  \<^verbatim>\<open>selectedSamples\<close> empty whatever it held, leaves a state description whose
  \<^verbatim>\<open>filters\<close> is \<open>F\<close> and whose \<^verbatim>\<open>selected\<close> is the empty array, and sends the
  \<^verbatim>\<open>filters_update\<close> message carrying \<open>F\<close> after the selection is cleared and before
  the new state description is written.
\<close>

theorem filters_set_clears_selection_and_notifies:
  "selectedSamples (filters_set (Value F) s) = [] \<and>
   filters_get (filters_set (Value F) s) = F \<and>
   get_prop (objects (filters_set (Value F) s))
     (Ref (stateDescription (filters_set (Value F) s))) ''selected'' = Arr [] \<and>
   effects (filters_set (Value F) s) =
     effects s @ [AtomWrite ''selectedSamples'',
                  SocketSend ''filters_update'' [(''filters'', F)],
                  AtomWrite ''stateDescription'']"
proof -
  have selected: "get_prop (objects (filters_set (Value F) s))
          (Ref (stateDescription (filters_set (Value F) s))) ''selected'' = Arr []"
    by (simp add: filters_set_Value get_prop_new selected_no_member update_conv')
  have order: "effects (filters_set (Value F) s) =
     effects s @ [AtomWrite ''selectedSamples'',
                  SocketSend ''filters_update'' [(''filters'', F)],
                  AtomWrite ''stateDescription'']"
    by (simp add: filters_set_Value)
  from selected order show ?thesis
    by simp
qed

section \<open>Filter writes and the selection\<close>

text \<open>
  C2, as stated: every write through \<^verbatim>\<open>filters\<close>, \<^verbatim>\<open>filterStage\<close> or
  \<^verbatim>\<open>matchedTags\<close>, modal or not, leaves the selected samples empty. A modal write does
  not: it goes to the atom \<^verbatim>\<open>modalFilters\<close>, whose setter touches nothing else, and
  the two selected samples of the example store are still selected after it.
\<close>

theorem modal_filterStage_write_keeps_selection:
  "selectedSamples (filterStage_set ''uniqueness'' True Null sample_store) = [''s1'', ''s2''] \<and>
   selectedSamples (filterStage_set ''uniqueness'' True Null sample_store) \<noteq> []"
  by (simp add: filterStage_set_modal sample_store_def)

text \<open>
  C2, amended: every write through the \<^verbatim>\<open>filters\<close> selector, and every
  \<^verbatim>\<open>filterStage\<close> or \<^verbatim>\<open>matchedTags\<close> write in the non-modal context, leaves the
  selected samples empty; a \<^verbatim>\<open>filterStage\<close> or \<^verbatim>\<open>matchedTags\<close> write in the modal
  context leaves the selected samples as they were.
\<close>

theorem selection_reset_outside_modal_context:
  "selectedSamples (filters_set arg s) = [] \<and>
   selectedSamples (filterStage_set P False V s) = [] \<and>
   (matchedTags_set key False val s = Inr s1 \<longrightarrow> selectedSamples s1 = []) \<and>
   selectedSamples (filterStage_set P True V s) = selectedSamples s \<and>
   (matchedTags_set key True val s = Inr s2 \<longrightarrow> selectedSamples s2 = selectedSamples s)"
  by (simp add: filterStage_set_grid filterStage_set_modal matchedTags_set_grid_selected
      matchedTags_set_modal_frame)

theorem selection_reset_outside_modal_context_witness:
  "(\<exists>s1. matchedTags_set ''sample'' False (Value [''dog'']) sample_store = Inr s1 \<and>
         selectedSamples s1 = []) \<and>
   (\<exists>s2. matchedTags_set ''sample'' True (Value [''dog'']) sample_store = Inr s2 \<and>
         selectedSamples s2 = [''s1'', ''s2'']) \<and>
   selectedSamples (filterStage_set ''uniqueness'' False Null sample_store) = [] \<and>
   selectedSamples (filters_set DefaultValue sample_store) = []"
proof -
  have "\<exists>s1. matchedTags_set ''sample'' False (Value [''dog'']) sample_store = Inr s1"
    by (simp add: sample_eval)
  then obtain s1 where
    grid: "matchedTags_set ''sample'' False (Value [''dog'']) sample_store = Inr s1" ..
  have "\<exists>s2. matchedTags_set ''sample'' True (Value [''dog'']) sample_store = Inr s2"
    by (simp add: sample_eval)
  then obtain s2 where
    modal: "matchedTags_set ''sample'' True (Value [''dog'']) sample_store = Inr s2" ..
  have sel: "selectedSamples sample_store = [''s1'', ''s2'']"
    by (simp add: sample_store_def)
  from selection_reset_outside_modal_context
         [of DefaultValue sample_store "''uniqueness''" Null "''sample''" "Value [''dog'']" s1 s2]
       grid modal sel
  show ?thesis by simp
qed

section \<open>Writing one path of the filters\<close>

text \<open>
  C3, as stated: after a \<^verbatim>\<open>filterStage\<close> write of \<^verbatim>\<open>null\<close> at any path \<open>P\<close> the
  read of \<open>P\<close> in the same context gives the empty object. The copy that the setter
  stores is an ordinary object: at the path \<^verbatim>\<open>toString\<close> it has no own entry, the read
  finds the method of \<^verbatim>\<open>Object.prototype\<close>, and \<^verbatim>\<open>?? {}\<close> is not taken.
\<close>

theorem filterStage_null_write_reads_inherited_member:
  "filterStage_get ''toString'' True (filterStage_set ''toString'' True Null sample_store)
     = Member ''Object.prototype.toString'' \<and>
   filterStage_get ''toString'' True (filterStage_set ''toString'' True Null sample_store)
     \<noteq> Fresh []"
  by (simp add: filterStage_get_def nullish_def sample_eval)

text \<open>
  C3, amended: a \<^verbatim>\<open>filterStage\<close> write of \<^verbatim>\<open>null\<close> at a path \<open>P\<close>, in either
  context and whatever the filters held, leaves a filters object without an own key
  \<open>P\<close>; and when \<open>P\<close> names no member of \<^verbatim>\<open>Object.prototype\<close> and the filters held
  no own entry \<^verbatim>\<open>__proto__\<close> (which \<^verbatim>\<open>Object.assign\<close> would make the prototype of the
  copy), the read of \<open>P\<close> in the same context that follows gives the empty object.
\<close>

theorem filterStage_set_null_removes_path:
  "(\<exists>a. get_filters m (filterStage_set P m Null s) = Ref a \<and>
        P \<notin> fst ` set (deref (objects (filterStage_set P m Null s)) a)) \<and>
   (P \<notin> set (members Object_prototype) \<and>
    map_of (own_props (objects s) (get_filters m s)) ''__proto__'' = None \<longrightarrow>
      filterStage_get P m (filterStage_set P m Null s) = Fresh [])"
proof -
  obtain rest where objs: "objects (filterStage_set P m Null s) =
     objects s @
       (AList.delete P (fst (object_assign (own_props (objects s) (get_filters m s)))),
        snd (object_assign (own_props (objects s) (get_filters m s)))) # rest"
    using filterStage_set_null_objects [of P m s] by blast
  have new: "get_filters m (filterStage_set P m Null s) = Ref (length (objects s))"
    by (rule filterStage_set_new_address)
  have own: "P \<notin> fst ` set (deref (objects (filterStage_set P m Null s)) (length (objects s)))"
    by (simp add: objs delete_notin_dom)
  have read: "filterStage_get P m (filterStage_set P m Null s) = Fresh []"
    if "P \<notin> set (members Object_prototype)"
      and "map_of (own_props (objects s) (get_filters m s)) ''__proto__'' = None"
  proof -
    have "lookup (objects (filterStage_set P m Null s)) (Ref (length (objects s))) P = Absent"
      using that
      by (simp add: objs object_assign_plain lookup_new_plain delete_conv')
    then show ?thesis
      by (simp add: filterStage_get_def new nullish_def)
  qed
  from new own read show ?thesis by simp
qed

theorem filterStage_set_null_removes_path_witness:
  "''uniqueness'' \<notin> set (members Object_prototype) \<and>
   map_of (own_props (objects sample_store) (get_filters False sample_store)) ''__proto__''
     = None \<and>
   filterStage_get ''uniqueness'' False (filterStage_set ''uniqueness'' False Null sample_store)
     = Fresh []"
proof -
  have a: "''uniqueness'' \<notin> set (members Object_prototype)"
    by (simp add: members.simps)
  have b: "map_of (own_props (objects sample_store) (get_filters False sample_store))
             ''__proto__'' = None"
    by (simp add: sample_eval)
  from filterStage_set_null_removes_path [of False "''uniqueness''" sample_store] a b
  show ?thesis by simp
qed

text \<open>
  C4, as stated: after a write of a non-null value \<open>V\<close> at \<open>P\<close> the read of \<open>P\<close>
  gives \<open>V\<close>. \<^verbatim>\<open>undefined\<close> is not \<^verbatim>\<open>null\<close>: the setter compares with
  \<^verbatim>\<open>=== null\<close> and stores it under \<open>P\<close>, and the getter's \<^verbatim>\<open>?? {}\<close> then answers
  with a new empty object.
\<close>

theorem filterStage_set_undefined_reads_empty_object:
  "Undef \<noteq> Null \<and>
   filterStage_get ''uniqueness'' True (filterStage_set ''uniqueness'' True Undef sample_store)
     = Fresh [] \<and>
   filterStage_get ''uniqueness'' True (filterStage_set ''uniqueness'' True Undef sample_store)
     \<noteq> Stored Undef"
  by (simp add: filterStage_get_def nullish_def sample_eval)

text \<open>
  C4, amended: after a \<^verbatim>\<open>filterStage\<close> write, in either context, of a value \<open>V\<close>
  that is neither \<^verbatim>\<open>null\<close> nor \<^verbatim>\<open>undefined\<close> at a path \<open>P\<close> other than
  \<^verbatim>\<open>__proto__\<close>, the read of \<open>P\<close> gives \<open>V\<close>. The own entry of every other path but
  \<^verbatim>\<open>__proto__\<close> is the one the filters had before (an own entry \<^verbatim>\<open>__proto__\<close> is
  assigned by \<^verbatim>\<open>Object.assign\<close>, not copied). When the filters before were an object
  with the prototype \<^verbatim>\<open>Object.prototype\<close> and without such an entry, the read of every
  other path gives what it gave before. The filters are a newly allocated object, and
  every object allocated before the write, the previous filters object among them, has
  the properties it had.
\<close>

theorem filterStage_set_value_reads_back:
  assumes "V \<noteq> Null" and "V \<noteq> Undef" and "P \<noteq> ''__proto__''"
  shows "filterStage_get P m (filterStage_set P m V s) = Stored V \<and>
    (\<forall>Q. Q \<noteq> P \<and> Q \<noteq> ''__proto__'' \<longrightarrow>
       map_of (own_props (objects (filterStage_set P m V s))
                 (get_filters m (filterStage_set P m V s))) Q =
       map_of (own_props (objects s) (get_filters m s)) Q) \<and>
    (\<forall>Q a. Q \<noteq> P \<and> get_filters m s = Ref a \<and> proto_of (objects s) a = Default \<and>
           map_of (deref (objects s) a) ''__proto__'' = None \<longrightarrow>
       filterStage_get Q m (filterStage_set P m V s) = filterStage_get Q m s) \<and>
    get_filters m (filterStage_set P m V s) = Ref (length (objects s)) \<and>
    take (length (objects s)) (objects (filterStage_set P m V s)) = objects s"
proof -
  let ?E = "own_props (objects s) (get_filters m s)"
  let ?s' = "filterStage_set P m V s"
  obtain rest where objs: "objects ?s' =
     objects s @ (AList.update P V (fst (object_assign ?E)), snd (object_assign ?E)) # rest"
    using filterStage_set_value_objects [OF assms(1) assms(3), of m s] by blast
  have new: "get_filters m ?s' = Ref (length (objects s))"
    by (rule filterStage_set_new_address)
  have "lookup (objects ?s') (Ref (length (objects s))) P = Data V"
    by (simp add: objs lookup_new_own update_conv')
  with assms(1,2) have readP: "filterStage_get P m ?s' = Stored V"
    by (simp add: filterStage_get_def new nullish_def)
  have entries: "map_of (own_props (objects ?s') (get_filters m ?s')) Q = map_of ?E Q"
    if "Q \<noteq> P \<and> Q \<noteq> ''__proto__''" for Q
    using that by (simp add: new objs update_conv' object_assign_entries)
  have reads: "filterStage_get Q m ?s' = filterStage_get Q m s"
    if "Q \<noteq> P \<and> get_filters m s = Ref a \<and> proto_of (objects s) a = Default \<and>
        map_of (deref (objects s) a) ''__proto__'' = None" for Q a
  proof -
    from that have E: "?E = deref (objects s) a"
      by simp
    from that have plain: "object_assign (deref (objects s) a) = (deref (objects s) a, Default)"
      by (simp add: object_assign_plain)
    from that have
      "lookup (objects ?s') (Ref (length (objects s))) Q = lookup (objects s) (Ref a) Q"
      by (simp add: objs E plain lookup_new lookup_plain update_conv' split: option.splits)
    with that show ?thesis
      by (simp add: filterStage_get_def new nullish_def)
  qed
  from readP entries reads new filterStage_set_keeps_objects [of s P m V]
  show ?thesis by blast
qed

theorem filterStage_set_value_reads_back_witness:
  "Ref 3 \<noteq> Null \<and> Ref 3 \<noteq> Undef \<and> ''confidence'' \<noteq> ''__proto__'' \<and>
   get_filters False sample_store = Ref 1 \<and> proto_of (objects sample_store) 1 = Default \<and>
   map_of (deref (objects sample_store) 1) ''__proto__'' = None \<and>
   filterStage_get ''confidence'' False (filterStage_set ''confidence'' False (Ref 3) sample_store)
     = Stored (Ref 3) \<and>
   map_of (own_props (objects (filterStage_set ''confidence'' False (Ref 3) sample_store))
             (get_filters False (filterStage_set ''confidence'' False (Ref 3) sample_store)))
     ''tags'' = Some (Ref 2) \<and>
   filterStage_get ''uniqueness'' False
     (filterStage_set ''confidence'' False (Ref 3) sample_store) = Stored (Ref 3) \<and>
   get_filters False (filterStage_set ''confidence'' False (Ref 3) sample_store) = Ref 6 \<and>
   take 6 (objects (filterStage_set ''confidence'' False (Ref 3) sample_store))
     = objects sample_store"
proof -
  have old: "map_of (own_props (objects sample_store) (get_filters False sample_store)) ''tags''
               = Some (Ref 2)"
    by (simp add: sample_eval)
  have len: "length (objects sample_store) = 6"
    by (simp add: sample_store_def)
  have plain: "get_filters False sample_store = Ref 1"
    "proto_of (objects sample_store) 1 = Default"
    "map_of (deref (objects sample_store) 1) ''__proto__'' = None"
    by (simp_all add: sample_eval)
  have before: "filterStage_get ''uniqueness'' False sample_store = Stored (Ref 3)"
    by (simp add: filterStage_get_def nullish_def sample_eval)
  have vals: "Ref 3 \<noteq> Null" "Ref 3 \<noteq> Undef" "''confidence'' \<noteq> ''__proto__''"
    by simp_all
  note inst =
    filterStage_set_value_reads_back [OF vals, of False sample_store]
  from inst have entries:
    "\<forall>Q. Q \<noteq> ''confidence'' \<and> Q \<noteq> ''__proto__'' \<longrightarrow>
       map_of (own_props (objects (filterStage_set ''confidence'' False (Ref 3) sample_store))
                 (get_filters False (filterStage_set ''confidence'' False (Ref 3) sample_store))) Q =
       map_of (own_props (objects sample_store) (get_filters False sample_store)) Q"
    by blast
  from inst have reads:
    "\<forall>Q a. Q \<noteq> ''confidence'' \<and> get_filters False sample_store = Ref a \<and>
           proto_of (objects sample_store) a = Default \<and>
           map_of (deref (objects sample_store) a) ''__proto__'' = None \<longrightarrow>
       filterStage_get Q False (filterStage_set ''confidence'' False (Ref 3) sample_store) =
       filterStage_get Q False sample_store"
    by blast
  have tags:
    "map_of (own_props (objects (filterStage_set ''confidence'' False (Ref 3) sample_store))
              (get_filters False (filterStage_set ''confidence'' False (Ref 3) sample_store)))
       ''tags'' = Some (Ref 2)"
    using entries [rule_format, of "''tags''"] old by simp
  have other:
    "filterStage_get ''uniqueness'' False
       (filterStage_set ''confidence'' False (Ref 3) sample_store) = Stored (Ref 3)"
    using reads [rule_format, of "''uniqueness''" 1] plain before by simp
  from inst have
    "filterStage_get ''confidence'' False
       (filterStage_set ''confidence'' False (Ref 3) sample_store) = Stored (Ref 3)"
    "get_filters False (filterStage_set ''confidence'' False (Ref 3) sample_store)
       = Ref (length (objects sample_store))"
    "take (length (objects sample_store))
       (objects (filterStage_set ''confidence'' False (Ref 3) sample_store))
       = objects sample_store"
    by blast+
  with tags other plain len show ?thesis
    by simp
qed

section \<open>Matched tags\<close>

text \<open>
  C5. After a \<^verbatim>\<open>matchedTags\<close> write of an empty set for a category key, in either
  context, the filters are an object whose \<^verbatim>\<open>tags\<close> have no such key; and when the
  stored tags held no other category, the filters have no key \<^verbatim>\<open>tags\<close> at all. The
  tags read from the store before the write are a value or a reference to an allocated
  object.
\<close>

theorem matchedTags_set_empty_removes_category:
  assumes "matchedTags_set key m (Value []) s = Inr s'"
    and "live (objects s) (get_prop (objects s) (get_filters m s) ''tags'')"
  shows "(\<exists>a. get_filters m s' = Ref a) \<and>
     key \<notin> fst ` set (own_props (objects s')
                         (get_prop (objects s') (get_filters m s') ''tags'')) \<and>
     (AList.delete key
        (own_props (objects s) (get_prop (objects s) (get_filters m s) ''tags'')) = []
      \<longrightarrow> ''tags'' \<notin> fst ` set (own_props (objects s') (get_filters m s')))"
proof -
  define h where "h = objects s"
  define F0 where "F0 = own_props h (get_filters m s)"
  define t0 where "t0 = get_prop (h @ [(F0, Default)]) (Ref (length h)) ''tags''"
  define T1 where
    "T1 = AList.delete key (if truthy t0 then own_props (h @ [(F0, Default)]) t0 else [])"
  define F1 where
    "F1 = (if T1 = [] then AList.delete ''tags'' F0
           else AList.update ''tags'' (Ref (Suc (length h))) F0)"
  let ?s1 = "s\<lparr>objects := h @ [(F1, Default), (T1, Default)]\<rparr>"
  have s': "s' = (if m then set_modalFilters (length h) ?s1
                  else filters_set (Value (Ref (length h))) ?s1)"
    using matchedTags_set_empty [OF assms(1)]
    by (simp add: Let_def h_def F0_def t0_def T1_def F1_def)
  have new: "get_filters m s' = Ref (length h)"
    by (simp add: s' get_filters_def set_modalFilters_def)
  have F1: "own_props (objects s') (Ref (length h)) = F1"
    by (simp add: s' set_modalFilters_def objects_filters_set)
  have T1: "own_props (objects s') (Ref (Suc (length h))) = T1"
    by (simp add: s' set_modalFilters_def objects_filters_set)
  have tags: "get_prop (objects s') (Ref (length h)) ''tags'' =
                (if T1 = [] then Undef else Ref (Suc (length h)))"
    by (simp add: s' set_modalFilters_def objects_filters_set get_prop_new tags_no_member
        F1_def delete_conv' update_conv')
  have absent: "key \<notin> fst ` set T1"
    by (simp add: T1_def delete_notin_dom)
  have last: "T1 = []"
    if "AList.delete key (own_props h (get_prop h (get_filters m s) ''tags'')) = []"
  proof (cases "map_of F0 ''tags''")
    case None
    then have "t0 = Undef"
      by (simp add: t0_def F0_def stages_tags)
    then show ?thesis by (simp add: T1_def)
  next
    case (Some x)
    then have "t0 = x" and "get_prop h (get_filters m s) ''tags'' = x"
      by (simp_all add: t0_def F0_def stages_tags get_prop_own)
    with that assms(2) show ?thesis
      by (cases "truthy x") (simp_all add: T1_def own_props_live h_def)
  qed
  have "''tags'' \<notin> fst ` set F1" if "T1 = []"
    using that by (simp add: F1_def delete_notin_dom)
  with last have parent:
    "AList.delete key (own_props h (get_prop h (get_filters m s) ''tags'')) = []
     \<longrightarrow> ''tags'' \<notin> fst ` set (own_props (objects s') (Ref (length h)))"
    using F1 by simp
  show ?thesis
    using new tags T1 absent parent by (auto simp add: h_def split: if_splits)
qed

theorem matchedTags_set_empty_removes_category_witness:
  "matchedTags_set ''label'' True (Value []) sample_store =
     Inr (sample_store\<lparr>objects := objects sample_store @ [([], Default), ([], Default)], modalFilters := 6,
                       effects := [AtomWrite ''modalFilters'']\<rparr>) \<and>
   live (objects sample_store)
     (get_prop (objects sample_store) (get_filters True sample_store) ''tags'') \<and>
   AList.delete ''label''
     (own_props (objects sample_store)
        (get_prop (objects sample_store) (get_filters True sample_store) ''tags'')) = [] \<and>
   ''label'' \<notin> fst ` set (own_props (objects sample_store @ [([], Default), ([], Default)])
                            (get_prop (objects sample_store @ [([], Default), ([], Default)]) (Ref 6) ''tags'')) \<and>
   ''tags'' \<notin> fst ` set (own_props (objects sample_store @ [([], Default), ([], Default)]) (Ref 6))"
proof -
  let ?r = "sample_store\<lparr>objects := objects sample_store @ [([], Default), ([], Default)], modalFilters := 6,
                         effects := [AtomWrite ''modalFilters'']\<rparr>"
  have a: "matchedTags_set ''label'' True (Value []) sample_store = Inr ?r"
    by (simp add: sample_eval)
  have b: "live (objects sample_store)
             (get_prop (objects sample_store) (get_filters True sample_store) ''tags'')"
    by (simp add: sample_eval)
  have c: "AList.delete ''label''
     (own_props (objects sample_store)
        (get_prop (objects sample_store) (get_filters True sample_store) ''tags'')) = []"
    by (simp add: sample_eval)
  have d: "get_filters True ?r = Ref 6" "objects ?r = objects sample_store @ [([], Default), ([], Default)]"
    by (simp_all add: get_filters_def)
  from matchedTags_set_empty_removes_category [OF a b] c d a b show ?thesis by simp
qed

text \<open>
  C6. A \<^verbatim>\<open>matchedTags\<close> read is to give the empty set when the filters object is
  absent. In the store as it starts, the state description is \<^verbatim>\<open>{}\<close> and has no
  filters: the non-modal read evaluates \<^verbatim>\<open>undefined.tags\<close> and throws, for every
  category key. The read of \<^verbatim>\<open>filterStage\<close> in the same store goes through \<^verbatim>\<open>?.\<close>
  and gives the empty object.
\<close>

theorem matchedTags_get_throws_without_filters:
  "matchedTags_get key False (init_store others) = Inl TypeError \<and>
   filterStage_get path False (init_store others) = Fresh []"
proof -
  have "filters_get (init_store others) = Undef"
    by (simp add: filters_get_def init_store_def get_prop_plain proto_of_def deref_def
        filters_no_member)
  then show ?thesis
    by (simp add: matchedTags_get_def filterStage_get_def member_def get_filters_def
        nullish_def)
qed

section \<open>Writes in the modal context\<close>

text \<open>
  C10. A \<^verbatim>\<open>filterStage\<close> or \<^verbatim>\<open>matchedTags\<close> write with \<^verbatim>\<open>modal = true\<close> writes
  the atom \<^verbatim>\<open>modalFilters\<close> and nothing else: the state description atom, the selected
  samples and the other atoms are as before, every object allocated before the write has
  the properties it had, so the non-modal filters of a state description that is an
  allocated object are as before, and the one effect is the write of \<^verbatim>\<open>modalFilters\<close>:
  no message is sent.
\<close>

theorem modal_write_only_writes_modalFilters:
  "stateDescription (filterStage_set P True V s) = stateDescription s \<and>
   selectedSamples (filterStage_set P True V s) = selectedSamples s \<and>
   otherAtoms (filterStage_set P True V s) = otherAtoms s \<and>
   take (length (objects s)) (objects (filterStage_set P True V s)) = objects s \<and>
   effects (filterStage_set P True V s) = effects s @ [AtomWrite ''modalFilters''] \<and>
   (stateDescription s < length (objects s) \<longrightarrow>
      filters_get (filterStage_set P True V s) = filters_get s) \<and>
   (matchedTags_set key True val s = Inr s' \<longrightarrow>
      stateDescription s' = stateDescription s \<and>
      selectedSamples s' = selectedSamples s \<and>
      otherAtoms s' = otherAtoms s \<and>
      take (length (objects s)) (objects s') = objects s \<and>
      effects s' = effects s @ [AtomWrite ''modalFilters''] \<and>
      (stateDescription s < length (objects s) \<longrightarrow> filters_get s' = filters_get s))"
proof -
  have frame: "filters_get s' = filters_get s"
    if "stateDescription s' = stateDescription s"
      and "take (length (objects s)) (objects s') = objects s"
      and "stateDescription s < length (objects s)" for s' :: "'a store"
    using that by (simp add: filters_get_def get_prop_take)
  have stage:
    "stateDescription (filterStage_set P True V s) = stateDescription s \<and>
     selectedSamples (filterStage_set P True V s) = selectedSamples s \<and>
     otherAtoms (filterStage_set P True V s) = otherAtoms s \<and>
     take (length (objects s)) (objects (filterStage_set P True V s)) = objects s \<and>
     effects (filterStage_set P True V s) = effects s @ [AtomWrite ''modalFilters'']"
    using filterStage_set_keeps_objects [of s P True V]
    by (simp add: filterStage_set_modal)
  have tags:
    "stateDescription s' = stateDescription s \<and>
     selectedSamples s' = selectedSamples s \<and>
     otherAtoms s' = otherAtoms s \<and>
     take (length (objects s)) (objects s') = objects s \<and>
     effects s' = effects s @ [AtomWrite ''modalFilters'']"
    if "matchedTags_set key True val s = Inr s'"
    using matchedTags_set_modal_frame [OF that] by simp
  from stage tags frame [of "filterStage_set P True V s"] frame [of s']
  show ?thesis by blast
qed

theorem modal_write_only_writes_modalFilters_witness:
  "stateDescription sample_store < length (objects sample_store) \<and>
   filters_get (filterStage_set ''uniqueness'' True (Ref 3) sample_store) = Ref 1 \<and>
   effects (filterStage_set ''uniqueness'' True (Ref 3) sample_store)
     = [AtomWrite ''modalFilters''] \<and>
   (\<exists>s'. matchedTags_set ''label'' True (Value [''cat'']) sample_store = Inr s' \<and>
         stateDescription s' = 0 \<and>
         selectedSamples s' = [''s1'', ''s2''] \<and>
         filters_get s' = Ref 1 \<and>
         effects s' = [AtomWrite ''modalFilters''])"
proof -
  have "\<exists>s'. matchedTags_set ''label'' True (Value [''cat'']) sample_store = Inr s'"
    by (simp add: sample_eval)
  then obtain s' where
    w: "matchedTags_set ''label'' True (Value [''cat'']) sample_store = Inr s'" ..
  have l: "stateDescription sample_store < length (objects sample_store)"
    by (simp add: sample_store_def)
  have f: "filters_get sample_store = Ref 1" "stateDescription sample_store = 0"
    "selectedSamples sample_store = [''s1'', ''s2'']" "effects sample_store = []"
    by (simp_all add: sample_eval)
  from modal_write_only_writes_modalFilters
         [of "''uniqueness''" "Ref 3" sample_store "''label''" "Value [''cat'']" s'] w l f
  show ?thesis by simp
qed

section \<open>State updates from the event source\<close>



text \<open>
  C8. Once the abort signal is triggered, every message delivered afterwards is
  discarded: whatever the messages are, the handler returns without an error, the
  setter is not called and the local state stays as it was.
\<close>

theorem aborted_subscriber_discards_messages:
  "deliver parse toCamelCase msgs (abort sub) = Inr (abort sub) \<and>
   initialState (abort sub) = initialState sub \<and>
   setStateCalls (abort sub) = setStateCalls sub"
  by (simp add: deliver_aborted abort_def)

section \<open>The tokens of the two palettes\<close>

text \<open>
  C9, as stated: the light and the dark palette define the same set of tokens. The light
  palette defines \<^verbatim>\<open>background.input\<close>; the dark palette does not.
\<close>

theorem light_token_missing_in_dark_palette:
  "[''background'', ''input''] \<in> set (tokens light_palette) \<and>
   [''background'', ''input''] \<notin> set (tokens dark_palette)"
  by (simp add: tokens_def light_palette_def dark_palette_def)

text \<open>
  C9, amended: the two palettes have the same top-level keys, every token of the dark
  palette is a token of the light palette, and the tokens of the light palette that the
  dark palette lacks are \<^verbatim>\<open>background.input\<close> and \<^verbatim>\<open>text.buttonHighlight\<close>.
\<close>

theorem palettes_differ_in_two_light_tokens:
  "map fst light_palette = map fst dark_palette \<and>
   filter (\<lambda>t. t \<notin> set (tokens dark_palette)) (tokens light_palette) =
     [[''background'', ''input''], [''text'', ''buttonHighlight'']] \<and>
   filter (\<lambda>t. t \<notin> set (tokens light_palette)) (tokens dark_palette) = []"
  by (simp add: tokens_def light_palette_def dark_palette_def)


end
